theory Spec2Isabelle
  imports Complex_Main
begin

section \<open>Behavioural risk-analytics engine: data model\<close>

text \<open>
  The engine lives in \<^verbatim>\<open>backend/app/test.py\<close>.  Python floats are read as real numbers
  (exact arithmetic, no rounding, no NaN), except in the turn test of the movement pattern,
  whose floating-point operations are parameters; pixel coordinates are Python ints,
  strings are character lists.  Every exception the engine can raise on well-typed data is a value of
  \<open>py_error\<close>; a function that may raise returns \<open>py_error + 'a\<close>, and one that
  mutates a tracker before it may raise returns the tracker next to the outcome.
\<close>

datatype py_error = IndexError | TypeError

text \<open>
  The \<^verbatim>\<open>description\<close> of an event is an f-string in the source; the model keeps which
  format it is and the values put into it.
\<close>

datatype description =
    NoDescription
  | UnauthorizedAccess string
  | WeaponDetected string real
  | LoiteringFor real
  | ErraticMovementDetected
  | FastMovementDetected

record RiskEvent =
  event_type :: string
  risk_score :: real
  confidence :: real
  timestamp :: real
  duration :: real
  location :: "int \<times> int"
  description :: description

text \<open>An entry of \<^verbatim>\<open>detected_objects\<close>: the dict with keys object, confidence, timestamp.\<close>

record DetectedObject =
  det_object :: string
  det_confidence :: real
  det_timestamp :: real

text \<open>
  \<^verbatim>\<open>PersonTracker\<close>.  The deques are lists, oldest entry first.  \<^verbatim>\<open>last_bbox\<close> is either
  the empty list (\<open>None\<close>) or the four corners \<^verbatim>\<open>[x1, y1, x2, y2]\<close> stored by
  \<^verbatim>\<open>update_trackers\<close>.
\<close>

record PersonTracker =
  track_id :: int
  positions :: "(int \<times> int) list"
  timestamps :: "real list"
  detected_objects :: "DetectedObject list"
  risk_events :: "RiskEvent list"
  total_risk_score :: real
  max_risk_score :: real
  status :: string
  last_seen :: real
  zone_entry_time :: "real option"
  stationary_start :: "real option"
  last_bbox :: "(int \<times> int \<times> int \<times> int) option"
  last_notified_threat :: string

text \<open>\<^verbatim>\<open>PersonTracker(track_id=tid)\<close>: the dataclass defaults.\<close>

definition new_PersonTracker :: "int \<Rightarrow> PersonTracker" where
  "new_PersonTracker tid =
     \<lparr> track_id = tid, positions = [], timestamps = [], detected_objects = [],
       risk_events = [], total_risk_score = 0, max_risk_score = 0, status = ''normal'',
       last_seen = 0, zone_entry_time = None, stationary_start = None, last_bbox = None,
       last_notified_threat = ''normal'' \<rparr>"

section \<open>Track store\<close>

text \<open>
  \<^verbatim>\<open>deque(maxlen=n).append(x)\<close>: a full deque drops its oldest entry.
\<close>

definition deque_append :: "nat \<Rightarrow> 'a list \<Rightarrow> 'a \<Rightarrow> 'a list" where
  "deque_append maxlen xs x = (if length xs < maxlen then xs @ [x] else tl xs @ [x])"

definition add_position ::
  "PersonTracker \<Rightarrow> int \<times> int \<Rightarrow> real \<Rightarrow> int \<times> int \<times> int \<times> int \<Rightarrow> PersonTracker" where
  "add_position self pos ts bbox =
     self\<lparr> positions := deque_append 30 (positions self) pos,
           timestamps := deque_append 30 (timestamps self) ts,
           last_seen := ts,
           last_bbox := Some bbox \<rparr>"

text \<open>
  The loop of \<^verbatim>\<open>get_speed\<close> over \<^verbatim>\<open>range(1, len(self.positions))\<close>.  The accumulator is
  \<^verbatim>\<open>(total_distance, total_time)\<close>.  \<^verbatim>\<open>self.positions[i]\<close> is in range by the loop
  bound; \<^verbatim>\<open>self.timestamps[i]\<close> raises IndexError when the timestamp deque is shorter.
\<close>

fun get_speed_loop ::
  "(int \<times> int) list \<Rightarrow> real list \<Rightarrow> nat list \<Rightarrow> real \<times> real \<Rightarrow> py_error + (real \<times> real)" where
  "get_speed_loop ps ts [] acc = Inr acc"
| "get_speed_loop ps ts (i # is) (total_distance, total_time) =
     (let dx = fst (ps ! i) - fst (ps ! (i - 1));
          dy = snd (ps ! i) - snd (ps ! (i - 1));
          distance = sqrt (real_of_int (dx * dx + dy * dy))
      in if i < length ts
         then (let time_diff = ts ! i - ts ! (i - 1)
               in if time_diff > 0
                  then get_speed_loop ps ts is (total_distance + distance, total_time + time_diff)
                  else get_speed_loop ps ts is (total_distance, total_time))
         else Inl IndexError)"

definition get_speed :: "PersonTracker \<Rightarrow> py_error + real" where
  "get_speed self =
     (if length (positions self) < 2 then Inr 0
      else case get_speed_loop (positions self) (timestamps self)
                  [1 ..< length (positions self)] (0, 0) of
             Inl e \<Rightarrow> Inl e
           | Inr (total_distance, total_time) \<Rightarrow>
               Inr (if total_time > 0 then total_distance / total_time else 0))"

section \<open>Movement pattern\<close>

text \<open>
  The turn test of \<^verbatim>\<open>get_movement_pattern\<close> compares floating-point angles with
  \<^verbatim>\<open>math.pi / 4\<close>, and at a turn of exactly 45 degrees the rounding of \<^verbatim>\<open>math.atan2\<close>
  and of the subtraction decides the comparison.  So the floating-point operations of that
  test are parameters of the model: \<^verbatim>\<open>math.pi\<close>, \<^verbatim>\<open>math.atan2\<close>, and the rounding that
  a float subtraction applies to the exact difference.  \<^verbatim>\<open>2 * math.pi\<close> and
  \<^verbatim>\<open>math.pi / 4\<close> scale by a power of two and are exact.  Every function that reaches the
  turn test takes the \<open>float_math\<close> as its first argument.
\<close>

record float_math =
  f_pi :: real
  f_atan2 :: "real \<Rightarrow> real \<Rightarrow> real"
  f_round :: "real \<Rightarrow> real"

text \<open>
  The mathematical \<open>atan2\<close>, with the value 0 at the origin, and the
  \<open>float_math\<close> without rounding, used for the concrete instances below: their angles
  are 0 and \<open>\<pi>/2\<close>, far from the threshold.
\<close>

definition py_atan2 :: "real \<Rightarrow> real \<Rightarrow> real" where
  "py_atan2 y x =
     (if x > 0 then arctan (y / x)
      else if x < 0 then (if y \<ge> 0 then arctan (y / x) + pi else arctan (y / x) - pi)
      else if y > 0 then pi / 2
      else if y < 0 then - (pi / 2)
      else 0)"

definition real_math :: float_math where
  "real_math = \<lparr> f_pi = pi, f_atan2 = py_atan2, f_round = (\<lambda>x. x) \<rparr>"

text \<open>
  The body of the loop of \<^verbatim>\<open>get_movement_pattern\<close> at index \<open>i\<close>, for
  \<open>2 \<le> i < len(positions)\<close>: the angle between step \<open>i - 1\<close> and step \<open>i\<close>.
\<close>

definition angle_diff :: "float_math \<Rightarrow> (int \<times> int) list \<Rightarrow> nat \<Rightarrow> real" where
  "angle_diff fm ps i =
     (let prev_angle = f_atan2 fm (real_of_int (snd (ps ! (i - 1)) - snd (ps ! (i - 2))))
                                  (real_of_int (fst (ps ! (i - 1)) - fst (ps ! (i - 2))));
          curr_angle = f_atan2 fm (real_of_int (snd (ps ! i) - snd (ps ! (i - 1))))
                                  (real_of_int (fst (ps ! i) - fst (ps ! (i - 1))));
          d = \<bar>f_round fm (curr_angle - prev_angle)\<bar>
      in if d > f_pi fm then f_round fm (2 * f_pi fm - d) else d)"

definition direction_changes :: "float_math \<Rightarrow> (int \<times> int) list \<Rightarrow> nat" where
  "direction_changes fm ps =
     length (filter (\<lambda>i. angle_diff fm ps i > f_pi fm / 4) [2 ..< length ps])"

definition get_movement_pattern :: "float_math \<Rightarrow> PersonTracker \<Rightarrow> py_error + string" where
  "get_movement_pattern fm self =
     (if length (positions self) < 5 then Inr ''insufficient_data''
      else case get_speed self of
             Inl e \<Rightarrow> Inl e
           | Inr speed \<Rightarrow>
               (let change_rate = real (direction_changes fm (positions self))
                                    / real (length (positions self))
                in Inr (if speed < 5 then ''stationary''
                        else if speed > 50 then ''running''
                        else if change_rate > 0.3 then ''erratic''
                        else if change_rate < 0.1 then ''linear''
                        else ''normal'')))"

section \<open>Risk scoring\<close>

text \<open>\<^verbatim>\<open>d.get(k, default)\<close> on a dict written as its list of items.\<close>

definition dict_get :: "('k \<times> 'v) list \<Rightarrow> 'k \<Rightarrow> 'v \<Rightarrow> 'v" where
  "dict_get d k dflt = (case map_of d k of Some v \<Rightarrow> v | None \<Rightarrow> dflt)"

definition base_risk_scores :: "(string \<times> real) list" where
  "base_risk_scores =
     [(''intrusion'', 15), (''armed_person'', 20), (''suspicious_loitering'', 8),
      (''erratic_movement'', 6), (''running'', 5), (''group_formation'', 7)]"

definition confidence_weights :: "(string \<times> real) list" where
  "confidence_weights = [(''high'', 1), (''medium'', 0.8), (''low'', 0.5)]"

definition get_confidence_level :: "real \<Rightarrow> string" where
  "get_confidence_level c =
     (if c \<ge> 0.8 then ''high'' else if c \<ge> 0.6 then ''medium'' else ''low'')"

definition calculate_time_factor :: "real \<Rightarrow> real \<Rightarrow> real" where
  "calculate_time_factor event_time current_time =
     (let time_diff = current_time - event_time
      in if time_diff < 10 then 1.5
         else if time_diff < 30 then 1.2
         else if time_diff < 120 then 1.0
         else max 0.3 (exp (- time_diff / 300)))"

text \<open>The score of one event: the body of the loop up to \<^verbatim>\<open>total_score += event_score\<close>.\<close>

definition event_score :: "real \<Rightarrow> RiskEvent \<Rightarrow> real" where
  "event_score current_time event =
     (let base_score = dict_get base_risk_scores (event_type event) 0;
          confidence_factor =
            dict_get confidence_weights (get_confidence_level (confidence event)) 1;
          time_factor = calculate_time_factor (timestamp event) current_time;
          location_factor = 1;
          score = base_score * confidence_factor * time_factor * location_factor
      in if duration event > 30
         then score * (1 + min (duration event / 60) 2 * 0.3)
         else score)"

text \<open>
  One iteration of the loop over \<^verbatim>\<open>person.risk_events\<close>; the state is
  \<^verbatim>\<open>(total_score, primary_threat, max_event_score)\<close>.
\<close>

definition score_step :: "real \<Rightarrow> real \<times> string \<times> real \<Rightarrow> RiskEvent \<Rightarrow> real \<times> string \<times> real" where
  "score_step current_time acc event =
     (case acc of (total_score, primary_threat, max_event_score) \<Rightarrow>
        (let s = event_score current_time event
         in if s > max_event_score
            then (total_score + s, event_type event, s)
            else (total_score + s, primary_threat, max_event_score)))"

definition calculate_risk_score ::
  "float_math \<Rightarrow> PersonTracker \<Rightarrow> real \<Rightarrow> py_error + (real \<times> string)" where
  "calculate_risk_score fm person current_time =
     (case foldl (score_step current_time) (0, ''normal'', 0) (risk_events person) of
        (total_score, primary_threat, max_event_score) \<Rightarrow>
          (case get_movement_pattern fm person of
             Inl e \<Rightarrow> Inl e
           | Inr movement_pattern \<Rightarrow>
               (let total1 =
                      (if movement_pattern = ''erratic'' then total_score * 1.3
                       else if movement_pattern = ''running'' then total_score * 1.2
                       else if movement_pattern = ''stationary'' \<and> length (risk_events person) > 0
                            then total_score * 1.1
                       else total_score);
                    total2 =
                      (if length (filter (\<lambda>e. current_time - timestamp e < 60)
                                         (risk_events person)) > 2
                       then total1 * 1.4 else total1)
                in Inr (min total2 100, primary_threat))))"

section \<open>Security zones\<close>

record SecurityZone =
  name :: string
  access_level :: string
  points :: "(int \<times> int) list"

text \<open>
  \<^verbatim>\<open>cv2.pointPolygonTest(contour, pt, False)\<close> is OpenCV's, not this repository's.  The
  model follows the library's branch for an integer contour and an integer point with
  \<^verbatim>\<open>measureDist\<close> false, which is how \<^verbatim>\<open>contains_point\<close> calls it: it walks the edges
  \<open>(v0, v)\<close> of the closed contour, starting with the edge from the last vertex to the
  first, answers 0 as soon as the point is on a vertex or an edge, and otherwise counts the
  edges a ray from the point crosses; the answer is 1 for an odd count and -1 for an even
  one.  The contour is an \<^verbatim>\<open>int32\<close> array: the library takes the coordinate differences
  in 32 bits and their products in 64 bits, and the model wraps them so.  The point reaches
  the loop through a 32-bit float, which holds every integer up to 16777216 in absolute
  value; the model is of points in that range.
\<close>

definition wrap32 :: "int \<Rightarrow> int" where
  "wrap32 x = (x + 2 ^ 31) mod 2 ^ 32 - 2 ^ 31"

definition wrap64 :: "int \<Rightarrow> int" where
  "wrap64 x = (x + 2 ^ 63) mod 2 ^ 64 - 2 ^ 63"

fun pointPolygonTest_loop :: "int \<times> int \<Rightarrow> (int \<times> int) list \<Rightarrow> int \<times> int \<Rightarrow> nat \<Rightarrow> int" where
  "pointPolygonTest_loop ip [] v0 counter = (if counter mod 2 = 0 then - 1 else 1)"
| "pointPolygonTest_loop ip (v # cnt) v0 counter =
     (if (snd v0 \<le> snd ip \<and> snd v \<le> snd ip) \<or>
         (snd v0 > snd ip \<and> snd v > snd ip) \<or>
         (fst v0 < fst ip \<and> fst v < fst ip)
      then (if snd ip = snd v \<and>
               (fst ip = fst v \<or>
                (snd ip = snd v0 \<and>
                 ((fst v0 \<le> fst ip \<and> fst ip \<le> fst v) \<or> (fst v \<le> fst ip \<and> fst ip \<le> fst v0))))
            then 0
            else pointPolygonTest_loop ip cnt v counter)
      else (let dist = wrap64 (wrap32 (snd ip - snd v0) * wrap32 (fst v - fst v0)
                               - wrap32 (fst ip - fst v0) * wrap32 (snd v - snd v0))
            in if dist = 0 then 0
               else pointPolygonTest_loop ip cnt v
                      (if (if snd v < snd v0 then wrap64 (- dist) else dist) > 0
                       then counter + 1 else counter)))"

definition pointPolygonTest :: "(int \<times> int) list \<Rightarrow> int \<times> int \<Rightarrow> int" where
  "pointPolygonTest contour pt =
     (if contour = [] then - 1 else pointPolygonTest_loop pt contour (last contour) 0)"

definition contains_point :: "SecurityZone \<Rightarrow> int \<times> int \<Rightarrow> bool" where
  "contains_point self point =
     (if points self = [] then False else pointPolygonTest (points self) point \<ge> 0)"

section \<open>The monitoring system\<close>

text \<open>
  A detection of the current frame: the dict with keys bbox, confidence, class, center
  built by \<^verbatim>\<open>detect_objects\<close>.
\<close>

record Detection =
  d_bbox :: "int \<times> int \<times> int \<times> int"
  d_confidence :: real
  d_class :: string
  d_center :: "int \<times> int"

text \<open>
  The fields of \<^verbatim>\<open>SecurityMonitoringSystem\<close> the engine reads.  \<^verbatim>\<open>person_trackers\<close> is a
  dict, kept in insertion order.  The two thresholds are overwritten by
  \<^verbatim>\<open>video_processing_loop\<close> with the camera's columns, which are nullable: \<open>None\<close> is
  Python's \<^verbatim>\<open>None\<close>, and comparing a float with it raises TypeError.
\<close>

record SecurityMonitoringSystem =
  person_trackers :: "(int \<times> PersonTracker) list"
  loitering_threshold :: "real option"
  risk_alert_threshold :: "real option"
  critical_alert_threshold :: real
  security_zones :: "SecurityZone list"

section \<open>Behaviour analyzer\<close>

definition weapon_classes :: "string list" where
  "weapon_classes = [''knife'', ''gun'', ''weapon'', ''scissors'', ''bottle'']"

text \<open>\<^verbatim>\<open>person.positions[-1] if person.positions else (0, 0)\<close>.\<close>

definition last_position_or_origin :: "PersonTracker \<Rightarrow> int \<times> int" where
  "last_position_or_origin person =
     (if positions person = [] then (0, 0) else last (positions person))"

text \<open>The loop of \<^verbatim>\<open>check_intrusion\<close> over \<^verbatim>\<open>self.security_zones\<close>.\<close>

fun check_intrusion_zones ::
  "SecurityZone list \<Rightarrow> PersonTracker \<Rightarrow> real \<Rightarrow> int \<times> int \<Rightarrow> RiskEvent option" where
  "check_intrusion_zones [] person current_time current_pos = None"
| "check_intrusion_zones (zone # zones) person current_time current_pos =
     (if contains_point zone current_pos \<and>
         access_level zone \<in> set [''restricted'', ''critical''] \<and>
         filter (\<lambda>e. event_type e = ''intrusion'' \<and> current_time - timestamp e < 60)
                (risk_events person) = []
      then Some \<lparr> event_type = ''intrusion'',
                  risk_score = (if access_level zone = ''critical'' then 15 else 12),
                  confidence = 0.9,
                  timestamp = current_time,
                  duration = 0,
                  location = current_pos,
                  description = UnauthorizedAccess (name zone) \<rparr>
      else check_intrusion_zones zones person current_time current_pos)"

definition check_intrusion ::
  "SecurityMonitoringSystem \<Rightarrow> PersonTracker \<Rightarrow> real \<Rightarrow> RiskEvent option" where
  "check_intrusion self person current_time =
     (if positions person = [] then None
      else check_intrusion_zones (security_zones self) person current_time
             (last (positions person)))"

text \<open>\<^verbatim>\<open>max(...)\<close> over a non-empty sequence.\<close>

definition py_max :: "real list \<Rightarrow> real" where
  "py_max xs = foldl max (hd xs) (tl xs)"

definition check_weapons ::
  "SecurityMonitoringSystem \<Rightarrow> PersonTracker \<Rightarrow> real \<Rightarrow> RiskEvent option" where
  "check_weapons self person current_time =
     (let recent_weapons =
            filter (\<lambda>obj. current_time - det_timestamp obj < 30 \<and>
                           det_object obj \<in> set weapon_classes)
                   (detected_objects person)
      in if recent_weapons \<noteq> [] \<and>
            filter (\<lambda>e. event_type e = ''armed_person'' \<and> current_time - timestamp e < 30)
                   (risk_events person) = []
         then (let max_confidence = py_max (map det_confidence recent_weapons);
                   weapon_type = det_object (hd recent_weapons)
               in Some \<lparr> event_type = ''armed_person'',
                           risk_score = 0,
                           confidence = max_confidence,
                           timestamp = current_time,
                           duration = 0,
                           location = last_position_or_origin person,
                           description = WeaponDetected weapon_type max_confidence \<rparr>)
         else None)"

text \<open>
  \<^verbatim>\<open>avg_movement\<close> of \<^verbatim>\<open>check_loitering\<close>: the summed step lengths between the last ten
  positions, divided by the number of positions (ten), not by the number of steps.
\<close>

definition step_length :: "(int \<times> int) list \<Rightarrow> nat \<Rightarrow> real" where
  "step_length ps i =
     (let dx = fst (ps ! i) - fst (ps ! (i - 1));
          dy = snd (ps ! i) - snd (ps ! (i - 1))
      in sqrt (real_of_int (dx * dx + dy * dy)))"

definition avg_movement :: "(int \<times> int) list \<Rightarrow> real" where
  "avg_movement ps =
     (let recent_positions = drop (length ps - 10) ps;
          total_movement = sum_list (map (step_length recent_positions)
                                         [1 ..< length recent_positions])
      in total_movement / real (length recent_positions))"

text \<open>
  \<^verbatim>\<open>check_loitering\<close> writes \<^verbatim>\<open>person.stationary_start\<close>, so it returns the tracker too.
  The comparison with \<^verbatim>\<open>self.loitering_threshold\<close> raises TypeError when the threshold is
  \<^verbatim>\<open>None\<close>.
\<close>

definition check_loitering ::
  "SecurityMonitoringSystem \<Rightarrow> PersonTracker \<Rightarrow> real
     \<Rightarrow> (py_error + RiskEvent option) \<times> PersonTracker" where
  "check_loitering self person current_time =
     (if length (positions person) < 10 then (Inr None, person)
      else if avg_movement (positions person) < 10
      then (case stationary_start person of
              None \<Rightarrow> (Inr None, person\<lparr>stationary_start := Some current_time\<rparr>)
            | Some start \<Rightarrow>
                (case loitering_threshold self of
                   None \<Rightarrow> (Inl TypeError, person)
                 | Some threshold \<Rightarrow>
                     if current_time - start > threshold \<and>
                        filter (\<lambda>e. event_type e = ''suspicious_loitering'' \<and>
                                     current_time - timestamp e < 60)
                               (risk_events person) = []
                     then (Inr (Some \<lparr> event_type = ''suspicious_loitering'',
                                        risk_score = 8,
                                        confidence = 0.8,
                                        timestamp = current_time,
                                        duration = current_time - start,
                                        location = last (positions person),
                                        description = LoiteringFor (current_time - start) \<rparr>),
                           person)
                     else (Inr None, person)))
      else (Inr None, person\<lparr>stationary_start := None\<rparr>))"

definition check_movement_patterns ::
  "float_math \<Rightarrow> SecurityMonitoringSystem \<Rightarrow> PersonTracker \<Rightarrow> real
     \<Rightarrow> py_error + RiskEvent option" where
  "check_movement_patterns fm self person current_time =
     (case get_movement_pattern fm person of
        Inl e \<Rightarrow> Inl e
      | Inr pattern \<Rightarrow>
          Inr (if pattern = ''erratic''
               then (if filter (\<lambda>e. event_type e = ''erratic_movement'' \<and>
                                    current_time - timestamp e < 30) (risk_events person) = []
                     then Some \<lparr> event_type = ''erratic_movement'',
                                 risk_score = 6,
                                 confidence = 0.7,
                                 timestamp = current_time,
                                 duration = 0,
                                 location = last_position_or_origin person,
                                 description = ErraticMovementDetected \<rparr>
                     else None)
               else if pattern = ''running''
               then (if filter (\<lambda>e. event_type e = ''running'' \<and>
                                    current_time - timestamp e < 20) (risk_events person) = []
                     then Some \<lparr> event_type = ''running'',
                                 risk_score = 5,
                                 confidence = 0.8,
                                 timestamp = current_time,
                                 duration = 0,
                                 location = last_position_or_origin person,
                                 description = FastMovementDetected \<rparr>
                     else None)
               else None))"

text \<open>
  \<^verbatim>\<open>analyze_behavior\<close> runs the four checks in order, appends their events and prunes the
  events older than ten minutes.  It has no exception handler: the first check that
  raises ends it, with the tracker as the checks before left it.
\<close>

definition option_list :: "'a option \<Rightarrow> 'a list" where
  "option_list x = (case x of None \<Rightarrow> [] | Some y \<Rightarrow> [y])"

definition analyze_behavior ::
  "float_math \<Rightarrow> SecurityMonitoringSystem \<Rightarrow> PersonTracker \<Rightarrow> real
     \<Rightarrow> py_error option \<times> PersonTracker" where
  "analyze_behavior fm self person current_time =
     (let intrusion_event = check_intrusion self person current_time;
          weapon_event = check_weapons self person current_time
      in case check_loitering self person current_time of
           (Inl e, person1) \<Rightarrow> (Some e, person1)
         | (Inr loitering_event, person1) \<Rightarrow>
             (case check_movement_patterns fm self person1 current_time of
                Inl e \<Rightarrow> (Some e, person1)
              | Inr movement_event \<Rightarrow>
                  (let new_events = option_list intrusion_event @ option_list weapon_event @
                                    option_list loitering_event @ option_list movement_event
                   in (None,
                       person1\<lparr> risk_events :=
                         filter (\<lambda>event. current_time - timestamp event < 600)
                                (risk_events person1 @ new_events) \<rparr>))))"

text \<open>
  \<^verbatim>\<open>detect_carried_objects\<close>, the second method of that name in the class (the one in
  force): the person's box is widened by a margin of 20 px on every side, and every
  weapon-like detection whose box overlaps the widened box is appended to the bounded
  sighting history.  \<open>wall\<close> is the reading of \<^verbatim>\<open>time.time()\<close> stored with the
  sighting.
\<close>

fun detect_carried_objects_loop ::
  "PersonTracker \<Rightarrow> Detection list \<Rightarrow> int \<times> int \<times> int \<times> int \<Rightarrow> real \<Rightarrow> PersonTracker" where
  "detect_carried_objects_loop tracker [] person_bbox wall = tracker"
| "detect_carried_objects_loop tracker (detection # detections) (px1, py1, px2, py2) wall =
     (case d_bbox detection of (dx1, dy1, dx2, dy2) \<Rightarrow>
        (if d_class detection \<in> set weapon_classes \<and>
            \<not> (dx2 < px1 \<or> dx1 > px2 \<or> dy2 < py1 \<or> dy1 > py2)
         then detect_carried_objects_loop
                (tracker\<lparr> detected_objects :=
                   deque_append 10 (detected_objects tracker)
                     \<lparr> det_object = d_class detection,
                       det_confidence = d_confidence detection,
                       det_timestamp = wall \<rparr> \<rparr>)
                detections (px1, py1, px2, py2) wall
         else detect_carried_objects_loop tracker detections (px1, py1, px2, py2) wall))"

definition detect_carried_objects ::
  "PersonTracker \<Rightarrow> Detection list \<Rightarrow> int \<times> int \<times> int \<times> int \<Rightarrow> real \<Rightarrow> PersonTracker" where
  "detect_carried_objects tracker detections person_bbox wall =
     (case person_bbox of (px1, py1, px2, py2) \<Rightarrow>
        (let margin = 20
         in detect_carried_objects_loop tracker detections
              (px1 - margin, py1 - margin, px2 + margin, py2 + margin) wall))"

text \<open>
  Step 3 of \<^verbatim>\<open>process_frame\<close>: the loop over \<^verbatim>\<open>self.person_trackers.values()\<close> that
  analyses every recently seen track.  The loop has no exception handler, so an exception
  of \<^verbatim>\<open>analyze_behavior\<close> leaves it (and \<^verbatim>\<open>process_frame\<close>) at once; the result is the
  exception, if any, and the trackers as they are at that moment.
\<close>

fun process_frame_analysis ::
  "float_math \<Rightarrow> SecurityMonitoringSystem \<Rightarrow> Detection list \<Rightarrow> real \<Rightarrow> real \<Rightarrow> (int \<times> PersonTracker) list
     \<Rightarrow> py_error option \<times> (int \<times> PersonTracker) list" where
  "process_frame_analysis fm self detections wall current_time [] = (None, [])"
| "process_frame_analysis fm self detections wall current_time ((k, person) # rest) =
     (if current_time - last_seen person < 5
      then (case analyze_behavior fm self person current_time of
              (Some e, person1) \<Rightarrow> (Some e, (k, person1) # rest)
            | (None, person1) \<Rightarrow>
                (let person2 = (case last_bbox person1 of
                                  None \<Rightarrow> person1
                                | Some bbox \<Rightarrow>
                                    detect_carried_objects person1 detections bbox wall)
                 in case process_frame_analysis fm self detections wall current_time rest of
                      (r, rest') \<Rightarrow> (r, (k, person2) # rest')))
      else (case process_frame_analysis fm self detections wall current_time rest of
              (r, rest') \<Rightarrow> (r, (k, person) # rest')))"

section \<open>Alert and incident dispatch\<close>

text \<open>
  The two dicts \<^verbatim>\<open>process_alerts\<close> builds.  The JSON strings \<^verbatim>\<open>details\<close> and
  \<^verbatim>\<open>path_data\<close> are kept as the lists they serialise, and the \<^verbatim>\<open>datetime\<close> of an
  incident as the clock value it is made from.
\<close>

record Incident =
  inc_timestamp :: real
  inc_track_id :: int
  inc_risk_score :: real
  inc_primary_threat :: string
  inc_location_x :: "int option"
  inc_location_y :: "int option"
  inc_details :: "string list"
  inc_path_data :: "(int \<times> int) list"

record Alert =
  level :: string
  alert_track_id :: int
  alert_risk_score :: real
  threat_type :: string
  alert_location :: "int \<times> int"
  alert_timestamp :: real

text \<open>
  The body of the loop of \<^verbatim>\<open>process_alerts\<close> for one tracker: the updated tracker, the
  incidents and the alerts appended for it.  Whatever is raised inside the
  \<^verbatim>\<open>try\<close> is caught, logged and followed by \<^verbatim>\<open>continue\<close>: an exception of
  \<^verbatim>\<open>calculate_risk_score\<close> leaves the tracker as it was, and the TypeError of comparing
  the score with a \<^verbatim>\<open>None\<close> threshold comes after \<^verbatim>\<open>person.status\<close> was written.
\<close>

definition process_alerts_person ::
  "float_math \<Rightarrow> SecurityMonitoringSystem \<Rightarrow> real \<Rightarrow> PersonTracker
     \<Rightarrow> PersonTracker \<times> Incident list \<times> Alert list" where
  "process_alerts_person fm self current_time person =
     (if current_time - last_seen person > 5 then (person, [], [])
      else case calculate_risk_score fm person current_time of
             Inl e \<Rightarrow> (person, [], [])
           | Inr (score, primary_threat) \<Rightarrow>
               (let person1 = person\<lparr>status := primary_threat\<rparr>
                in case risk_alert_threshold self of
                     None \<Rightarrow> (person1, [], [])
                   | Some threshold \<Rightarrow>
                       if score \<ge> threshold
                       then (let incident_data =
                                   \<lparr> inc_timestamp = current_time,
                                     inc_track_id = track_id person1,
                                     inc_risk_score = score,
                                     inc_primary_threat = primary_threat,
                                     inc_location_x =
                                       (if positions person1 = [] then None
                                        else Some (fst (last (positions person1)))),
                                     inc_location_y =
                                       (if positions person1 = [] then None
                                        else Some (snd (last (positions person1)))),
                                     inc_details = map event_type (risk_events person1),
                                     inc_path_data = positions person1 \<rparr>
                             in if primary_threat \<noteq> last_notified_threat person1
                                then (person1\<lparr>last_notified_threat := primary_threat\<rparr>,
                                      [incident_data],
                                      [\<lparr> level = (if score \<ge> critical_alert_threshold self
                                                   then ''CRITICAL'' else ''HIGH''),
                                         alert_track_id = track_id person1,
                                         alert_risk_score = score,
                                         threat_type = primary_threat,
                                         alert_location = last_position_or_origin person1,
                                         alert_timestamp = current_time \<rparr>])
                                else (person1, [incident_data], []))
                       else (if last_notified_threat person1 \<noteq> ''normal''
                             then (person1\<lparr>last_notified_threat := ''normal''\<rparr>, [], [])
                             else (person1, [], []))))"

fun process_alerts_loop ::
  "float_math \<Rightarrow> SecurityMonitoringSystem \<Rightarrow> real \<Rightarrow> (int \<times> PersonTracker) list
     \<Rightarrow> (int \<times> PersonTracker) list \<times> Incident list \<times> Alert list" where
  "process_alerts_loop fm self current_time [] = ([], [], [])"
| "process_alerts_loop fm self current_time ((k, person) # rest) =
     (case process_alerts_person fm self current_time person of
        (person', incidents, alerts) \<Rightarrow>
          (case process_alerts_loop fm self current_time rest of
             (rest', incidents_to_log, reportable_alerts) \<Rightarrow>
               ((k, person') # rest', incidents @ incidents_to_log, alerts @ reportable_alerts)))"

definition process_alerts ::
  "float_math \<Rightarrow> SecurityMonitoringSystem \<Rightarrow> real
     \<Rightarrow> SecurityMonitoringSystem \<times> Incident list \<times> Alert list" where
  "process_alerts fm self current_time =
     (case process_alerts_loop fm self current_time (person_trackers self) of
        (trackers, incidents_to_log, reportable_alerts) \<Rightarrow>
          (self\<lparr>person_trackers := trackers\<rparr>, incidents_to_log, reportable_alerts))"

section \<open>System statistics\<close>

record RiskDistribution =
  low :: nat
  medium :: nat
  high :: nat
  critical :: nat

text \<open>
  The dict returned by \<^verbatim>\<open>get_system_statistics\<close>, without \<^verbatim>\<open>fps\<close> and
  \<^verbatim>\<open>frame_count\<close>, which are frame-rate bookkeeping.
\<close>

record SystemStatistics =
  active_trackers :: nat
  total_trackers :: nat
  risk_distribution :: RiskDistribution
  zones :: nat

text \<open>The loop over \<^verbatim>\<open>active_trackers\<close>; an exception of the score leaves it.\<close>

fun risk_distribution_loop ::
  "float_math \<Rightarrow> real \<Rightarrow> PersonTracker list \<Rightarrow> RiskDistribution \<Rightarrow> py_error + RiskDistribution" where
  "risk_distribution_loop fm current_time [] counts = Inr counts"
| "risk_distribution_loop fm current_time (person # rest) counts =
     (case calculate_risk_score fm person current_time of
        Inl e \<Rightarrow> Inl e
      | Inr (score, primary_threat) \<Rightarrow>
          risk_distribution_loop fm current_time rest
            (if score < 10 then counts\<lparr>low := low counts + 1\<rparr>
             else if score < 25 then counts\<lparr>medium := medium counts + 1\<rparr>
             else if score < 50 then counts\<lparr>high := high counts + 1\<rparr>
             else counts\<lparr>critical := critical counts + 1\<rparr>))"

definition get_system_statistics ::
  "float_math \<Rightarrow> SecurityMonitoringSystem \<Rightarrow> real \<Rightarrow> py_error + SystemStatistics" where
  "get_system_statistics fm self current_time =
     (let active = filter (\<lambda>p. current_time - last_seen p < 5)
                          (map snd (person_trackers self))
      in case risk_distribution_loop fm current_time active
                \<lparr> low = 0, medium = 0, high = 0, critical = 0 \<rparr> of
           Inl e \<Rightarrow> Inl e
         | Inr counts \<Rightarrow>
             Inr \<lparr> active_trackers = length active,
                   total_trackers = length (person_trackers self),
                   risk_distribution = counts,
                   zones = length (security_zones self) \<rparr>)"

section \<open>Notions used in the statements\<close>

text \<open>
  A run of \<^verbatim>\<open>add_position\<close> calls, each given as \<^verbatim>\<open>(pos, timestamp, bbox)\<close>, applied to
  a tracker in call order.
\<close>

definition add_positions ::
  "PersonTracker \<Rightarrow> ((int \<times> int) \<times> real \<times> (int \<times> int \<times> int \<times> int)) list \<Rightarrow> PersonTracker" where
  "add_positions self calls =
     foldl (\<lambda>p (pos, ts, bbox). add_position p pos ts bbox) self calls"

text \<open>
  The factor \<^verbatim>\<open>calculate_risk_score\<close> applies to the summed event scores: the movement
  pattern multiplier times the escalation multiplier.
\<close>

definition total_multiplier :: "string \<Rightarrow> RiskEvent list \<Rightarrow> real \<Rightarrow> real" where
  "total_multiplier movement_pattern events current_time =
     (if movement_pattern = ''erratic'' then 1.3
      else if movement_pattern = ''running'' then 1.2
      else if movement_pattern = ''stationary'' \<and> length events > 0 then 1.1
      else 1)
     * (if length (filter (\<lambda>e. current_time - timestamp e < 60) events) > 2 then 1.4 else 1)"





section \<open>Concrete data for the instances\<close>

text \<open>The square zone of the specification's containment example, marked restricted.\<close>

definition square_zone :: SecurityZone where
  "square_zone = \<lparr> name = ''vault'', access_level = ''restricted'',
                    points = [(0, 0), (10, 0), (10, 10), (0, 10)] \<rparr>"

text \<open>A system with the default thresholds of \<^verbatim>\<open>__init__\<close>, the square zone and no track.\<close>

definition example_system :: SecurityMonitoringSystem where
  "example_system = \<lparr> person_trackers = [], loitering_threshold = Some 10,
                       risk_alert_threshold = Some 20, critical_alert_threshold = 40,
                       security_zones = [square_zone] \<rparr>"

text \<open>An event of the given type, confidence and time, with the other fields at their defaults.\<close>

definition example_event :: "string \<Rightarrow> real \<Rightarrow> real \<Rightarrow> RiskEvent" where
  "example_event ty conf ts =
     \<lparr> event_type = ty, risk_score = 0, confidence = conf, timestamp = ts, duration = 0,
       location = (0, 0), description = NoDescription \<rparr>"

text \<open>
  A track last seen at time 0 with one intrusion event of confidence 0.9 raised at time 0,
  and the same track with an armed-person event raised at time 4 as well.
\<close>

definition intruder :: PersonTracker where
  "intruder = (new_PersonTracker 7)\<lparr>risk_events := [example_event ''intrusion'' 0.9 0]\<rparr>"

definition armed_intruder :: PersonTracker where
  "armed_intruder = (new_PersonTracker 7)\<lparr>risk_events :=
     [example_event ''intrusion'' 0.9 0, example_event ''armed_person'' 0.9 4]\<rparr>"

text \<open>
  A track that has stood at (50, 50) for ten samples, one per second from time 0 to 9,
  with its stationary window open since time 0; and a track seen once, at time 9, at
  (5, 5) inside the square zone.
\<close>

definition loiterer :: PersonTracker where
  "loiterer = (new_PersonTracker 1)
     \<lparr> positions := [(50, 50), (50, 50), (50, 50), (50, 50), (50, 50),
                      (50, 50), (50, 50), (50, 50), (50, 50), (50, 50)],
       timestamps := [0, 1, 2, 3, 4, 5, 6, 7, 8, 9],
       last_seen := 9,
       stationary_start := Some 0,
       last_bbox := Some (40, 20, 60, 80) \<rparr>"

definition visitor :: PersonTracker where
  "visitor = add_position (new_PersonTracker 2) (5, 5) 9 (3, 2, 7, 8)"



section \<open>Track store: the two histories stay paired\<close>

lemma length_deque_append:
  "length xs \<le> n \<Longrightarrow> 0 < n \<Longrightarrow> length (deque_append n xs x) = min n (Suc (length xs))"
  by (cases xs) (auto simp: deque_append_def)

lemma deque_append_drop:
  "length xs \<le> n \<Longrightarrow> 0 < n \<Longrightarrow>
     deque_append n xs x = drop (Suc (length xs) - n) (xs @ [x])"
  by (cases xs) (auto simp: deque_append_def)

lemma get_speed_loop_defined:
  "\<forall>i \<in> set is. i < length ts \<Longrightarrow> \<exists>r. get_speed_loop ps ts is acc = Inr r"
proof (induction "is" arbitrary: acc)
  case Nil
  show ?case by simp
next
  case (Cons i "is")
  obtain d t where acc: "acc = (d, t)" by (cases acc)
  from Cons.prems have "i < length ts" and rest: "\<forall>j \<in> set is. j < length ts" by simp_all
  with Cons.IH show ?case unfolding acc by (simp add: Let_def)
qed

lemma get_speed_defined:
  assumes "length (positions self) \<le> length (timestamps self)"
  shows "\<exists>v. get_speed self = Inr v"
proof (cases "length (positions self) < 2")
  case True
  then show ?thesis by (simp add: get_speed_def)
next
  case False
  have "\<forall>i \<in> set [1 ..< length (positions self)]. i < length (timestamps self)"
    using assms by auto
  from get_speed_loop_defined[OF this]
  obtain r where "get_speed_loop (positions self) (timestamps self)
                    [1 ..< length (positions self)] (0, 0) = Inr r"
    by blast
  with False show ?thesis by (cases r) (simp add: get_speed_def)
qed

lemma add_positions_snoc:
  "add_positions self (calls @ [(pos, ts, bbox)]) =
     add_position (add_positions self calls) pos ts bbox"
  by (simp add: add_positions_def)

lemma add_positions_histories:
  "positions (add_positions (new_PersonTracker tid) calls)
     = map fst (drop (length calls - 30) calls) \<and>
   timestamps (add_positions (new_PersonTracker tid) calls)
     = map (fst \<circ> snd) (drop (length calls - 30) calls)"
proof (induction calls rule: rev_induct)
  case Nil
  show ?case by (simp add: add_positions_def new_PersonTracker_def)
next
  case (snoc c calls)
  obtain pos ts bbox where c: "c = (pos, ts, bbox)" by (cases c)
  let ?p = "add_positions (new_PersonTracker tid) calls"
  from snoc.IH have lp: "length (positions ?p) = min 30 (length calls)"
    and lt: "length (timestamps ?p) = min 30 (length calls)" by simp_all
  have arith: "\<not> length calls < 30 \<Longrightarrow> Suc (length calls - 30) = length calls - 29"
    by simp
  have "positions (add_position ?p pos ts bbox)
          = drop (Suc (length (positions ?p)) - 30) (positions ?p @ [pos])"
    using lp by (simp add: add_position_def deque_append_drop)
  also have "\<dots> = map fst (drop (length (calls @ [c]) - 30) (calls @ [c]))"
    using snoc.IH lp arith unfolding c by (cases "length calls < 30") (auto simp: drop_map)
  finally have P: "positions (add_position ?p pos ts bbox)
                     = map fst (drop (length (calls @ [c]) - 30) (calls @ [c]))" .
  have "timestamps (add_position ?p pos ts bbox)
          = drop (Suc (length (timestamps ?p)) - 30) (timestamps ?p @ [ts])"
    using lt by (simp add: add_position_def deque_append_drop)
  also have "\<dots> = map (fst \<circ> snd) (drop (length (calls @ [c]) - 30) (calls @ [c]))"
    using snoc.IH lt arith unfolding c by (cases "length calls < 30") (auto simp: drop_map)
  finally have T: "timestamps (add_position ?p pos ts bbox)
                     = map (fst \<circ> snd) (drop (length (calls @ [c]) - 30) (calls @ [c]))" .
  from P T show ?case unfolding c add_positions_snoc by simp
qed

text \<open>
  C10.  After any sequence of \<^verbatim>\<open>add_position\<close> calls on a new tracker the position and
  timestamp deques have the same length, at most 30; they hold the positions and the
  timestamps of the same (the last 30) calls, so the oldest entries leave together; and
  \<^verbatim>\<open>get_speed\<close>, which reads \<^verbatim>\<open>timestamps[i]\<close> beside \<^verbatim>\<open>positions[i]\<close>, returns a value
  and raises no IndexError.
\<close>

theorem add_position_keeps_histories_paired:
  "length (positions (add_positions (new_PersonTracker tid) calls))
     = length (timestamps (add_positions (new_PersonTracker tid) calls)) \<and>
   length (positions (add_positions (new_PersonTracker tid) calls)) \<le> 30 \<and>
   length (positions (add_positions (new_PersonTracker tid) calls)) = min 30 (length calls) \<and>
   zip (positions (add_positions (new_PersonTracker tid) calls))
       (timestamps (add_positions (new_PersonTracker tid) calls))
     = map (\<lambda>(pos, ts, bbox). (pos, ts)) (drop (length calls - 30) calls) \<and>
   (\<exists>v. get_speed (add_positions (new_PersonTracker tid) calls) = Inr v)"
proof -
  let ?p = "add_positions (new_PersonTracker tid) calls"
  let ?kept = "drop (length calls - 30) calls"
  have P: "positions ?p = map fst ?kept" and T: "timestamps ?p = map (fst \<circ> snd) ?kept"
    using add_positions_histories[of tid calls] by simp_all
  have len: "length (positions ?p) = length (timestamps ?p)" by (simp add: P T)
  have "zip (positions ?p) (timestamps ?p) = map (\<lambda>(pos, ts, bbox). (pos, ts)) ?kept"
    unfolding P T by (simp add: zip_map_map zip_same_conv_map split_def)
  moreover have "\<exists>v. get_speed ?p = Inr v" using len by (intro get_speed_defined) simp
  moreover have "length (positions ?p) = min 30 (length calls)" by (simp add: P)
  ultimately show ?thesis using len by simp
qed

section \<open>Risk scoring: range, monotonicity, independence of the stored seed\<close>

lemma base_score_nonneg: "0 \<le> dict_get base_risk_scores k 0"
  by (simp add: dict_get_def base_risk_scores_def)

lemma confidence_factor_pos:
  "0 < dict_get confidence_weights (get_confidence_level c) 1"
  by (simp add: dict_get_def confidence_weights_def get_confidence_level_def)

lemma confidence_factor_mono:
  "c \<le> c' \<Longrightarrow>
     dict_get confidence_weights (get_confidence_level c) 1
       \<le> dict_get confidence_weights (get_confidence_level c') 1"
  by (simp add: dict_get_def confidence_weights_def get_confidence_level_def)

lemma time_factor_pos: "0 < calculate_time_factor te t"
  by (simp add: calculate_time_factor_def Let_def max_def)

text \<open>The score of an event is its confidence factor times a factor that ignores the confidence.\<close>

lemma event_score_factor:
  "\<exists>r \<ge> 0. \<forall>c. event_score t (e\<lparr>confidence := c\<rparr>)
                    = dict_get confidence_weights (get_confidence_level c) 1 * r"
proof (cases "duration e > 30")
  case True
  let ?r = "dict_get base_risk_scores (event_type e) 0 * calculate_time_factor (timestamp e) t
              * (1 + min (duration e / 60) 2 * 0.3)"
  have "0 \<le> 1 + min (duration e / 60) 2 * (0.3::real)" using True by (simp add: min_def)
  then have "0 \<le> ?r"
    using base_score_nonneg[of "event_type e"] time_factor_pos[of "timestamp e" t] by simp
  moreover have "\<forall>c. event_score t (e\<lparr>confidence := c\<rparr>)
                       = dict_get confidence_weights (get_confidence_level c) 1 * ?r"
    using True by (simp add: event_score_def Let_def)
  ultimately show ?thesis by blast
next
  case False
  let ?r = "dict_get base_risk_scores (event_type e) 0 * calculate_time_factor (timestamp e) t"
  have "0 \<le> ?r"
    using base_score_nonneg[of "event_type e"] time_factor_pos[of "timestamp e" t] by simp
  moreover have "\<forall>c. event_score t (e\<lparr>confidence := c\<rparr>)
                       = dict_get confidence_weights (get_confidence_level c) 1 * ?r"
    using False by (simp add: event_score_def Let_def)
  ultimately show ?thesis by blast
qed

lemma event_score_nonneg: "0 \<le> event_score t e"
proof -
  from event_score_factor[of t e] obtain r where r: "0 \<le> r"
    and eq: "\<forall>c. event_score t (e\<lparr>confidence := c\<rparr>)
                  = dict_get confidence_weights (get_confidence_level c) 1 * r" by blast
  from eq have "event_score t (e\<lparr>confidence := confidence e\<rparr>)
                  = dict_get confidence_weights (get_confidence_level (confidence e)) 1 * r" ..
  then show ?thesis using r confidence_factor_pos[of "confidence e"] by simp
qed

lemma event_score_mono:
  assumes "confidence e \<le> c"
  shows "event_score t e \<le> event_score t (e\<lparr>confidence := c\<rparr>)"
proof -
  from event_score_factor[of t e] obtain r where r: "0 \<le> r"
    and eq: "\<forall>c. event_score t (e\<lparr>confidence := c\<rparr>)
                  = dict_get confidence_weights (get_confidence_level c) 1 * r" by blast
  from eq have "event_score t (e\<lparr>confidence := confidence e\<rparr>)
                  = dict_get confidence_weights (get_confidence_level (confidence e)) 1 * r" ..
  moreover from eq have "event_score t (e\<lparr>confidence := c\<rparr>)
                  = dict_get confidence_weights (get_confidence_level c) 1 * r" ..
  ultimately show ?thesis
    using r confidence_factor_mono[OF assms] by (simp add: mult_right_mono)
qed

lemma fst_foldl_score_step:
  "fst (foldl (score_step t) (tot, pr, mx) es) = tot + sum_list (map (event_score t) es)"
  by (induction es arbitrary: tot pr mx) (simp_all add: score_step_def Let_def)

lemma total_multiplier_pos: "0 < total_multiplier pat es t"
  by (simp add: total_multiplier_def)

text \<open>What \<^verbatim>\<open>calculate_risk_score\<close> returns, with the loop over the events summed up.\<close>

lemma calculate_risk_score_eq:
  "calculate_risk_score fm p t =
     (case get_movement_pattern fm p of
        Inl e \<Rightarrow> Inl e
      | Inr pat \<Rightarrow>
          Inr (min (sum_list (map (event_score t) (risk_events p))
                      * total_multiplier pat (risk_events p) t) 100,
               fst (snd (foldl (score_step t) (0, ''normal'', 0) (risk_events p)))))"
proof -
  obtain tot pr mx where f: "foldl (score_step t) (0, ''normal'', 0) (risk_events p) = (tot, pr, mx)"
    by (cases "foldl (score_step t) (0, ''normal'', 0) (risk_events p)")
  have tot: "tot = sum_list (map (event_score t) (risk_events p))"
    using fst_foldl_score_step[of t 0 "''normal''" 0 "risk_events p"] f by simp
  show ?thesis
    unfolding calculate_risk_score_def f
    by (cases "get_movement_pattern fm p") (simp_all add: tot total_multiplier_def Let_def mult.commute)
qed

lemma get_movement_pattern_defined:
  assumes "length (positions p) \<le> length (timestamps p)"
  shows "\<exists>pat. get_movement_pattern fm p = Inr pat"
proof -
  from get_speed_defined[OF assms] obtain v where "get_speed p = Inr v" ..
  then show ?thesis by (simp add: get_movement_pattern_def Let_def)
qed

lemma sum_list_event_score_nonneg: "0 \<le> sum_list (map (event_score t) es)"
  by (induction es) (simp_all add: event_score_nonneg)

text \<open>The equations that evaluate a score on a concrete track.\<close>

lemmas risk_eval =
  calculate_risk_score_def score_step_def event_score_def dict_get_def base_risk_scores_def
  confidence_weights_def get_confidence_level_def calculate_time_factor_def
  get_movement_pattern_def new_PersonTracker_def Let_def

text \<open>The equations that evaluate the zone test on concrete pixels.\<close>

lemmas zone_eval = contains_point_def pointPolygonTest_def wrap32_def wrap64_def

text \<open>
  C7.  Whatever the track's events, positions and timestamps and whatever the current
  time, a score that \<^verbatim>\<open>calculate_risk_score\<close> returns lies in \<open>[0, 100]\<close>; and it does
  return one (it raises nothing) whenever the timestamp history is at least as long as the
  position history, which \<^verbatim>\<open>add_position\<close> maintains.
\<close>

theorem calculate_risk_score_in_range:
  "(calculate_risk_score fm p t = Inr (s, th) \<longrightarrow> 0 \<le> s \<and> s \<le> 100) \<and>
   (length (positions p) \<le> length (timestamps p) \<longrightarrow>
      (\<exists>s' th'. calculate_risk_score fm p t = Inr (s', th') \<and> 0 \<le> s' \<and> s' \<le> 100))"
proof -
  have range: "0 \<le> s \<and> s \<le> 100" if "calculate_risk_score fm p t = Inr (s, th)" for s th
  proof -
    from that obtain pat where
      s: "s = min (sum_list (map (event_score t) (risk_events p))
                     * total_multiplier pat (risk_events p) t) 100"
      unfolding calculate_risk_score_eq by (cases "get_movement_pattern fm p") auto
    have "0 \<le> sum_list (map (event_score t) (risk_events p))
                 * total_multiplier pat (risk_events p) t"
      using sum_list_event_score_nonneg[of t "risk_events p"]
            total_multiplier_pos[of pat "risk_events p" t]
      by (intro mult_nonneg_nonneg) simp_all
    then show ?thesis unfolding s by simp
  qed
  have "\<exists>s' th'. calculate_risk_score fm p t = Inr (s', th') \<and> 0 \<le> s' \<and> s' \<le> 100"
    if "length (positions p) \<le> length (timestamps p)"
  proof -
    from get_movement_pattern_defined[OF that] obtain pat
      where "get_movement_pattern fm p = Inr pat" ..
    then obtain s' th' where r: "calculate_risk_score fm p t = Inr (s', th')"
      unfolding calculate_risk_score_eq by simp
    with range[OF r] show ?thesis by blast
  qed
  with range show ?thesis by blast
qed

theorem calculate_risk_score_in_range_witness:
  "calculate_risk_score real_math
     ((new_PersonTracker 1)\<lparr>risk_events :=
        [\<lparr> event_type = ''intrusion'', risk_score = 12, confidence = 0.9, timestamp = 0,
           duration = 0, location = (0, 0), description = NoDescription \<rparr>]\<rparr>) 1
     = Inr (45 / 2, ''intrusion'') \<and>
   (0::real) \<le> 45 / 2 \<and> (45 / 2 :: real) \<le> 100 \<and>
   length (positions (new_PersonTracker 1)) \<le> length (timestamps (new_PersonTracker 1))"
proof -
  let ?p = "(new_PersonTracker 1)\<lparr>risk_events :=
        [\<lparr> event_type = ''intrusion'', risk_score = 12, confidence = 0.9, timestamp = 0,
           duration = 0, location = (0, 0), description = NoDescription \<rparr>]\<rparr>"
  have v: "calculate_risk_score real_math ?p 1 = Inr (45 / 2, ''intrusion'')"
    by (simp add: risk_eval)
  from calculate_risk_score_in_range[of real_math ?p 1 "45 / 2" "''intrusion''"] v
  have "(0::real) \<le> 45 / 2 \<and> (45 / 2 :: real) \<le> 100" by blast
  with v show ?thesis by (simp add: new_PersonTracker_def)
qed

lemma sum_list_update_mono:
  fixes f :: "'a \<Rightarrow> real"
  shows "i < length es \<Longrightarrow> f (es ! i) \<le> f e' \<Longrightarrow>
           sum_list (map f es) \<le> sum_list (map f (es[i := e']))"
proof (induction es arbitrary: i)
  case Nil
  then show ?case by simp
next
  case (Cons e es)
  then show ?case by (cases i) auto
qed

lemma length_filter_update:
  "i < length es \<Longrightarrow> P e' = P (es ! i) \<Longrightarrow>
     length (filter P (es[i := e'])) = length (filter P es)"
proof (induction es arbitrary: i)
  case Nil
  then show ?case by simp
next
  case (Cons e es)
  then show ?case by (cases i) auto
qed

lemma get_speed_risk_events [simp]:
  "get_speed (p\<lparr>risk_events := es\<rparr>) = get_speed p"
  by (simp add: get_speed_def)

lemma get_movement_pattern_risk_events [simp]:
  "get_movement_pattern fm (p\<lparr>risk_events := es\<rparr>) = get_movement_pattern fm p"
  by (cases "get_speed p") (simp_all add: get_movement_pattern_def)

text \<open>
  C8.  Raising the confidence of one event of a track, with everything else (the event
  types, timestamps and durations, the positions) as it was, never lowers the total score:
  if the score of the track is \<open>s\<close>, the changed track has a score too and it is at least
  \<open>s\<close>.
\<close>

theorem calculate_risk_score_mono_confidence:
  assumes i: "i < length (risk_events p)"
    and c: "confidence (risk_events p ! i) \<le> c"
    and s: "calculate_risk_score fm p t = Inr (s, th)"
  shows "\<exists>s' th'.
           calculate_risk_score fm
             (p\<lparr>risk_events := (risk_events p)[i := (risk_events p ! i)\<lparr>confidence := c\<rparr>]\<rparr>) t
             = Inr (s', th') \<and> s \<le> s'"
proof -
  let ?es = "risk_events p"
  let ?e' = "(?es ! i)\<lparr>confidence := c\<rparr>"
  let ?es' = "?es[i := ?e']"
  from s obtain pat where pat: "get_movement_pattern fm p = Inr pat"
    and sv: "s = min (sum_list (map (event_score t) ?es) * total_multiplier pat ?es t) 100"
    unfolding calculate_risk_score_eq by (cases "get_movement_pattern fm p") auto
  have "length (filter (\<lambda>e. t - timestamp e < 60) ?es')
          = length (filter (\<lambda>e. t - timestamp e < 60) ?es)"
    using i by (intro length_filter_update) simp_all
  then have mult: "total_multiplier pat ?es' t = total_multiplier pat ?es t"
    by (simp add: total_multiplier_def)
  have "sum_list (map (event_score t) ?es) \<le> sum_list (map (event_score t) ?es')"
    using i event_score_mono[OF c, of t] by (intro sum_list_update_mono)
  then have "sum_list (map (event_score t) ?es) * total_multiplier pat ?es t
               \<le> sum_list (map (event_score t) ?es') * total_multiplier pat ?es' t"
    unfolding mult using total_multiplier_pos[of pat ?es t] by (simp add: mult_right_mono)
  then have "s \<le> min (sum_list (map (event_score t) ?es') * total_multiplier pat ?es' t) 100"
    unfolding sv by (simp add: min_le_iff_disj)
  moreover have "calculate_risk_score fm (p\<lparr>risk_events := ?es'\<rparr>) t
      = Inr (min (sum_list (map (event_score t) ?es') * total_multiplier pat ?es' t) 100,
             fst (snd (foldl (score_step t) (0, ''normal'', 0) ?es')))"
    unfolding calculate_risk_score_eq by (simp add: pat)
  ultimately show ?thesis by blast
qed

theorem calculate_risk_score_mono_confidence_witness:
  "calculate_risk_score real_math
     ((new_PersonTracker 1)\<lparr>risk_events :=
        [\<lparr> event_type = ''intrusion'', risk_score = 12, confidence = 0.5, timestamp = 0,
           duration = 0, location = (0, 0), description = NoDescription \<rparr>]\<rparr>) 1
     = Inr (45 / 4, ''intrusion'') \<and>
   calculate_risk_score real_math
     ((new_PersonTracker 1)\<lparr>risk_events :=
        [\<lparr> event_type = ''intrusion'', risk_score = 12, confidence = 0.7, timestamp = 0,
           duration = 0, location = (0, 0), description = NoDescription \<rparr>]\<rparr>) 1
     = Inr (18, ''intrusion'') \<and>
   (\<exists>s' th'.
      calculate_risk_score real_math
        ((new_PersonTracker 1)\<lparr>risk_events :=
           [\<lparr> event_type = ''intrusion'', risk_score = 12, confidence = 0.7, timestamp = 0,
              duration = 0, location = (0, 0), description = NoDescription \<rparr>]\<rparr>) 1
        = Inr (s', th') \<and> (45 / 4 :: real) \<le> s')"
proof -
  let ?e = "\<lparr> event_type = ''intrusion'', risk_score = 12, confidence = 0.5, timestamp = 0,
             duration = 0, location = (0, 0), description = NoDescription \<rparr>"
  let ?p = "(new_PersonTracker 1)\<lparr>risk_events := [?e]\<rparr>"
  have i: "0 < length (risk_events ?p)" by simp
  have c: "confidence (risk_events ?p ! 0) \<le> 0.7" by simp
  have s: "calculate_risk_score real_math ?p 1 = Inr (45 / 4, ''intrusion'')" by (simp add: risk_eval)
  have s': "calculate_risk_score real_math
     ((new_PersonTracker 1)\<lparr>risk_events :=
        [\<lparr> event_type = ''intrusion'', risk_score = 12, confidence = 0.7, timestamp = 0,
           duration = 0, location = (0, 0), description = NoDescription \<rparr>]\<rparr>) 1
     = Inr (18, ''intrusion'')" by (simp add: risk_eval)
  from calculate_risk_score_mono_confidence[OF i c s] s s' show ?thesis by simp
qed

lemma event_score_risk_score [simp]:
  "event_score t (e\<lparr>risk_score := r\<rparr>) = event_score t e"
  by (simp add: event_score_def Let_def)

lemma score_step_risk_score [simp]:
  "score_step t acc (e\<lparr>risk_score := r\<rparr>) = score_step t acc e"
  by (cases acc) (simp add: score_step_def Let_def)

lemma foldl_score_step_risk_score:
  "list_all2 (\<lambda>e e'. e' = e\<lparr>risk_score := risk_score e'\<rparr>) es es' \<Longrightarrow>
     foldl (score_step t) acc es' = foldl (score_step t) acc es"
proof (induction es es' arbitrary: acc rule: list_all2_induct)
  case Nil
  show ?case by simp
next
  case (Cons e es e' es')
  from Cons.hyps(1) have "score_step t acc e' = score_step t acc e"
    using score_step_risk_score[where t = t and acc = acc and e = e and r = "risk_score e'"]
    by simp
  with Cons.IH show ?case by simp
qed

lemma recent_count_risk_score:
  "list_all2 (\<lambda>e e'. e' = e\<lparr>risk_score := risk_score e'\<rparr>) es es' \<Longrightarrow>
     length (filter (\<lambda>e. t - timestamp e < 60) es')
       = length (filter (\<lambda>e. t - timestamp e < 60) es)"
proof (induction es es' rule: list_all2_induct)
  case Nil
  show ?case by simp
next
  case (Cons e es e' es')
  from Cons.hyps(1) have "timestamp e' = timestamp e"
    by (metis RiskEvent.select_convs(4) RiskEvent.surjective RiskEvent.update_convs(2))
  with Cons.IH show ?case by simp
qed

lemma calculate_risk_score_risk_score:
  assumes "list_all2 (\<lambda>e e'. e' = e\<lparr>risk_score := risk_score e'\<rparr>) es es'"
  shows "calculate_risk_score fm (p\<lparr>risk_events := es'\<rparr>) t
           = calculate_risk_score fm (p\<lparr>risk_events := es\<rparr>) t"
proof -
  have len: "length es' = length es" using assms by (simp add: list_all2_lengthD)
  show ?thesis
    unfolding calculate_risk_score_def
    by (simp add: foldl_score_step_risk_score[OF assms] recent_count_risk_score[OF assms] len
          Let_def split: prod.split sum.split)
qed

text \<open>
  C9.  The score and the primary threat do not depend on the \<^verbatim>\<open>risk_score\<close> stored in
  the events: two tracks whose events agree one by one in every field but
  \<^verbatim>\<open>risk_score\<close>, and that agree in everything else, get the same result (or raise the
  same exception).  In particular, when \<^verbatim>\<open>check_intrusion\<close> creates an event for a zone
  marked restricted (seed 12) a zone marked critical would give an event with seed 15,
  and the track scores the same with either event appended.
\<close>

theorem calculate_risk_score_ignores_stored_seed:
  "(list_all2 (\<lambda>e e'. e' = e\<lparr>risk_score := risk_score e'\<rparr>) es es' \<longrightarrow>
      calculate_risk_score fm (p\<lparr>risk_events := es'\<rparr>) t
        = calculate_risk_score fm (p\<lparr>risk_events := es\<rparr>) t) \<and>
   (check_intrusion (self\<lparr>security_zones := [zone\<lparr>access_level := ''restricted''\<rparr>]\<rparr>)
        p now = Some e1 \<longrightarrow>
      (\<exists>e2. check_intrusion (self\<lparr>security_zones := [zone\<lparr>access_level := ''critical''\<rparr>]\<rparr>)
               p now = Some e2 \<and>
            risk_score e1 = 12 \<and> risk_score e2 = 15 \<and>
            calculate_risk_score fm (p\<lparr>risk_events := risk_events p @ [e1]\<rparr>) t
              = calculate_risk_score fm (p\<lparr>risk_events := risk_events p @ [e2]\<rparr>) t))"
proof (intro conjI impI)
  assume "list_all2 (\<lambda>e e'. e' = e\<lparr>risk_score := risk_score e'\<rparr>) es es'"
  then show "calculate_risk_score fm (p\<lparr>risk_events := es'\<rparr>) t
               = calculate_risk_score fm (p\<lparr>risk_events := es\<rparr>) t"
    by (rule calculate_risk_score_risk_score)
next
  assume a: "check_intrusion (self\<lparr>security_zones := [zone\<lparr>access_level := ''restricted''\<rparr>]\<rparr>)
               p now = Some e1"
  let ?e = "\<lambda>seed. \<lparr> event_type = ''intrusion'', risk_score = seed, confidence = 0.9,
                      timestamp = now, duration = 0, location = last (positions p),
                      description = UnauthorizedAccess (name zone) \<rparr>"
  from a have e1: "e1 = ?e 12"
    and c: "check_intrusion (self\<lparr>security_zones := [zone\<lparr>access_level := ''critical''\<rparr>]\<rparr>)
              p now = Some (?e 15)"
    by (auto simp: check_intrusion_def contains_point_def split: if_splits)
  have "list_all2 (\<lambda>e e'. e' = e\<lparr>risk_score := risk_score e'\<rparr>)
          (risk_events p @ [?e 15]) (risk_events p @ [?e 12])"
    by (simp add: list_all2_appendI list_all2_refl)
  from calculate_risk_score_risk_score[OF this, where fm = fm and p = p and t = t]
  have "calculate_risk_score fm (p\<lparr>risk_events := risk_events p @ [e1]\<rparr>) t
          = calculate_risk_score fm (p\<lparr>risk_events := risk_events p @ [?e 15]\<rparr>) t"
    unfolding e1 .
  with c e1 show "\<exists>e2. check_intrusion
                          (self\<lparr>security_zones := [zone\<lparr>access_level := ''critical''\<rparr>]\<rparr>)
                          p now = Some e2 \<and>
            risk_score e1 = 12 \<and> risk_score e2 = 15 \<and>
            calculate_risk_score fm (p\<lparr>risk_events := risk_events p @ [e1]\<rparr>) t
              = calculate_risk_score fm (p\<lparr>risk_events := risk_events p @ [e2]\<rparr>) t"
    by simp
qed

theorem calculate_risk_score_ignores_stored_seed_witness:
  "list_all2 (\<lambda>e e'. e' = e\<lparr>risk_score := risk_score e'\<rparr>)
     [(example_event ''intrusion'' 0.9 0)\<lparr>risk_score := 12\<rparr>]
     [(example_event ''intrusion'' 0.9 0)\<lparr>risk_score := 15\<rparr>] \<and>
   calculate_risk_score real_math
     ((new_PersonTracker 1)\<lparr>risk_events :=
        [(example_event ''intrusion'' 0.9 0)\<lparr>risk_score := 15\<rparr>]\<rparr>) 1
   = calculate_risk_score real_math
     ((new_PersonTracker 1)\<lparr>risk_events :=
        [(example_event ''intrusion'' 0.9 0)\<lparr>risk_score := 12\<rparr>]\<rparr>) 1 \<and>
   check_intrusion
     (example_system\<lparr>security_zones := [square_zone\<lparr>access_level := ''restricted''\<rparr>]\<rparr>)
     ((new_PersonTracker 1)\<lparr>positions := [(5, 5)], timestamps := [0]\<rparr>) 0
   = Some \<lparr> event_type = ''intrusion'', risk_score = 12, confidence = 0.9, timestamp = 0,
            duration = 0, location = (5, 5), description = UnauthorizedAccess ''vault'' \<rparr> \<and>
   (\<exists>e2. check_intrusion
           (example_system\<lparr>security_zones := [square_zone\<lparr>access_level := ''critical''\<rparr>]\<rparr>)
           ((new_PersonTracker 1)\<lparr>positions := [(5, 5)], timestamps := [0]\<rparr>) 0 = Some e2 \<and>
         risk_score e2 = 15)"
proof -
  let ?e12 = "(example_event ''intrusion'' 0.9 0)\<lparr>risk_score := 12\<rparr>"
  let ?e15 = "(example_event ''intrusion'' 0.9 0)\<lparr>risk_score := 15\<rparr>"
  let ?p = "(new_PersonTracker 1)\<lparr>positions := [(5, 5)], timestamps := [0]\<rparr>"
  let ?c = "\<lparr> event_type = ''intrusion'', risk_score = 12, confidence = 0.9, timestamp = 0,
             duration = 0, location = (5, 5), description = UnauthorizedAccess ''vault'' \<rparr>"
  have h1: "list_all2 (\<lambda>e e'. e' = e\<lparr>risk_score := risk_score e'\<rparr>) [?e12] [?e15]"
    by (simp add: example_event_def)
  have h2: "check_intrusion
     (example_system\<lparr>security_zones := [square_zone\<lparr>access_level := ''restricted''\<rparr>]\<rparr>) ?p 0
     = Some ?c"
    by (simp add: check_intrusion_def zone_eval square_zone_def new_PersonTracker_def)
  note inst1 = calculate_risk_score_ignores_stored_seed
               [where fm = real_math and es = "[?e12]" and es' = "[?e15]"
                  and p = "new_PersonTracker 1" and t = 1]
  note inst2 = calculate_risk_score_ignores_stored_seed
               [where fm = real_math and self = example_system and zone = square_zone and p = ?p
                  and now = 0
                  and ?e1.0 = ?c and t = 1]
  from inst1 h1 have "calculate_risk_score real_math ((new_PersonTracker 1)\<lparr>risk_events := [?e15]\<rparr>) 1
                  = calculate_risk_score real_math ((new_PersonTracker 1)\<lparr>risk_events := [?e12]\<rparr>) 1"
    by blast
  moreover from inst2 h2 have "\<exists>e2. check_intrusion
           (example_system\<lparr>security_zones := [square_zone\<lparr>access_level := ''critical''\<rparr>]\<rparr>)
           ?p 0 = Some e2 \<and> risk_score e2 = 15"
    by blast
  ultimately show ?thesis using h1 h2 by blast
qed

section \<open>Geometry: zones with few vertices\<close>

text \<open>
  C4 where it fails.  \<^verbatim>\<open>contains_point\<close> guards the empty vertex array only.  A zone of
  one vertex contains that vertex, and a zone of two vertices contains the points of the
  segment between them, such as (2, 1) between (0, 0) and (4, 2): for both the library
  answers 0, on the contour, and \<^verbatim>\<open>contains_point\<close> asks for \<open>\<ge> 0\<close>.  The rest of the
  claim holds: a zone without vertices contains no point, and the square with corners
  (0, 0), (10, 0), (10, 10), (0, 10) contains (5, 5) and not (15, 15).
\<close>

theorem contains_point_degenerate_zones:
  "contains_point \<lparr> name = ''door'', access_level = ''restricted'', points = [(3, 4)] \<rparr> (3, 4) \<and>
   contains_point \<lparr> name = ''line'', access_level = ''restricted'', points = [(0, 0), (4, 2)] \<rparr>
     (2, 1) \<and>
   \<not> contains_point \<lparr> name = n, access_level = a, points = [] \<rparr> pt \<and>
   contains_point square_zone (5, 5) \<and>
   \<not> contains_point square_zone (15, 15)"
  by (simp add: zone_eval square_zone_def)

section \<open>Dispatch: incidents on every frame, alerts on a change of threat\<close>

lemma get_speed_last_notified_threat [simp]:
  "get_speed (p\<lparr>last_notified_threat := l\<rparr>) = get_speed p"
  by (simp add: get_speed_def)

lemma get_movement_pattern_last_notified_threat [simp]:
  "get_movement_pattern fm (p\<lparr>last_notified_threat := l\<rparr>) = get_movement_pattern fm p"
  by (cases "get_speed p") (simp_all add: get_movement_pattern_def)

lemma calculate_risk_score_last_notified_threat [simp]:
  "calculate_risk_score fm (p\<lparr>last_notified_threat := l\<rparr>) t = calculate_risk_score fm p t"
  by (simp add: calculate_risk_score_def Let_def split: prod.split sum.split)

text \<open>
  The rest of the frame loop leaves \<^verbatim>\<open>last_notified_threat\<close> alone: neither the track
  update nor the behaviour analysis nor the carried-object detection writes it.
\<close>

lemma add_position_last_notified_threat:
  "last_notified_threat (add_position p pos ts bbox) = last_notified_threat p"
  by (simp add: add_position_def)

lemma check_loitering_last_notified_threat:
  "last_notified_threat (snd (check_loitering self p t)) = last_notified_threat p"
  by (simp add: check_loitering_def split: option.split)

lemma analyze_behavior_last_notified_threat:
  "last_notified_threat (snd (analyze_behavior fm self p t)) = last_notified_threat p"
proof -
  obtain r p1 where c: "check_loitering self p t = (r, p1)" by (cases "check_loitering self p t")
  with check_loitering_last_notified_threat[of self p t]
  have "last_notified_threat p1 = last_notified_threat p" by simp
  then show ?thesis
    by (simp add: analyze_behavior_def c Let_def split: sum.split)
qed

lemma detect_carried_objects_loop_last_notified_threat:
  "last_notified_threat (detect_carried_objects_loop p ds bbox wall) = last_notified_threat p"
proof (induction ds arbitrary: p)
  case Nil
  show ?case by simp
next
  case (Cons d ds)
  obtain px1 py1 px2 py2 where b: "bbox = (px1, py1, px2, py2)" by (cases bbox)
  obtain dx1 dy1 dx2 dy2 where d: "d_bbox d = (dx1, dy1, dx2, dy2)" by (cases "d_bbox d")
  show ?case using Cons.IH unfolding b by (simp add: d b)
qed

lemma detect_carried_objects_last_notified_threat:
  "last_notified_threat (detect_carried_objects p ds bbox wall) = last_notified_threat p"
  by (simp add: detect_carried_objects_def detect_carried_objects_loop_last_notified_threat
        split: prod.split)




lemmas dispatch_eval =
  process_alerts_person_def risk_eval intruder_def armed_intruder_def example_event_def
  example_system_def last_position_or_origin_def





section \<open>Which tracks a frame looks at, and what an exception does to the others\<close>

text \<open>
  \<^verbatim>\<open>process_alerts\<close> handles each tracker on its own: trackers, incidents and alerts are
  those of \<^verbatim>\<open>process_alerts_person\<close>, tracker by tracker, whatever happens to the others.
\<close>

lemma process_alerts_loop_per_person:
  "process_alerts_loop fm self now trackers =
     (map (\<lambda>(k, p). (k, fst (process_alerts_person fm self now p))) trackers,
      concat (map (\<lambda>(k, p). fst (snd (process_alerts_person fm self now p))) trackers),
      concat (map (\<lambda>(k, p). snd (snd (process_alerts_person fm self now p))) trackers))"
  by (induction trackers) (auto split: prod.split)

lemma process_alerts_person_skipped:
  "now - last_seen p > 5 \<Longrightarrow> process_alerts_person fm self now p = (p, [], [])"
  by (simp add: process_alerts_person_def)

lemma process_alerts_person_exception:
  "calculate_risk_score fm p now = Inl e \<Longrightarrow>
     process_alerts_person fm self now p = (p, [], [])"
  by (simp add: process_alerts_person_def)

lemma loiterer_avg_movement: "avg_movement (positions loiterer) = 0"
  by (simp add: avg_movement_def loiterer_def step_length_def upt_rec)

text \<open>
  C5 at its boundary, for any floating-point environment.  A track seen exactly 5 seconds
  ago, with a score of 22.5 against a threshold of 20: \<^verbatim>\<open>process_alerts\<close> skips only tracks seen more than 5 seconds ago, so it
  logs an incident and raises an alert for the track, while \<^verbatim>\<open>get_system_statistics\<close>
  at the same instant counts no active tracker and leaves the risk distribution empty.
\<close>

theorem process_alerts_handles_track_seen_5s_ago:
  "5 - last_seen intruder = 5 \<and>
   calculate_risk_score fm intruder 5 = Inr (45 / 2, ''intrusion'') \<and>
   map inc_track_id
     (fst (snd (process_alerts fm (example_system\<lparr>person_trackers := [(7, intruder)]\<rparr>) 5)))
     = [7] \<and>
   map threat_type
     (snd (snd (process_alerts fm (example_system\<lparr>person_trackers := [(7, intruder)]\<rparr>) 5)))
     = [''intrusion''] \<and>
   get_system_statistics fm (example_system\<lparr>person_trackers := [(7, intruder)]\<rparr>) 5
     = Inr \<lparr> active_trackers = 0, total_trackers = 1,
             risk_distribution = \<lparr> low = 0, medium = 0, high = 0, critical = 0 \<rparr>,
             zones = 1 \<rparr>"
  by (simp add: process_alerts_def get_system_statistics_def dispatch_eval)

text \<open>
  C6 where it fails.  The camera's loitering threshold is \<^verbatim>\<open>None\<close>.  Track 1 has stood
  still with its stationary window open, so \<^verbatim>\<open>check_loitering\<close> compares a float with
  \<^verbatim>\<open>None\<close> and raises TypeError; track 2 stands inside the restricted square, and analysed
  on its own it receives an intrusion event.  The analysis loop of \<^verbatim>\<open>process_frame\<close>
  has no handler: it ends with the TypeError of track 1 and track 2 is never analysed.
  \<^verbatim>\<open>process_alerts\<close>, in contrast, still handles the second of two trackers when the
  first makes \<^verbatim>\<open>calculate_risk_score\<close> raise (here an IndexError, forced by a tracker
  whose timestamp deque is shorter than its position deque).
\<close>

theorem process_frame_analysis_stops_at_first_exception:
  "19 / 2 - last_seen loiterer < 5 \<and> 19 / 2 - last_seen visitor < (5::real) \<and>
   fst (analyze_behavior fm (example_system\<lparr>loitering_threshold := None\<rparr>) loiterer
          (19 / 2))
     = Some TypeError \<and>
   fst (analyze_behavior fm (example_system\<lparr>loitering_threshold := None\<rparr>) visitor (19 / 2))
     = None \<and>
   map event_type
     (risk_events
        (snd (analyze_behavior fm (example_system\<lparr>loitering_threshold := None\<rparr>) visitor
                (19 / 2))))
     = [''intrusion''] \<and>
   process_frame_analysis fm (example_system\<lparr>loitering_threshold := None\<rparr>) [] 10 (19 / 2)
       [(1, loiterer), (2, visitor)]
     = (Some TypeError, [(1, loiterer), (2, visitor)]) \<and>
   risk_events visitor = [] \<and>
   calculate_risk_score fm
       (intruder\<lparr>positions := [(0, 0), (0, 0), (0, 0), (0, 0), (0, 0)]\<rparr>) 1
     = Inl IndexError \<and>
   map inc_track_id
     (fst (snd (process_alerts fm
        (example_system\<lparr>person_trackers :=
           [(3, intruder\<lparr>positions := [(0, 0), (0, 0), (0, 0), (0, 0), (0, 0)]\<rparr>),
            (7, intruder)]\<rparr>) 1))) = [7]"
proof -
  let ?sys = "example_system\<lparr>loitering_threshold := None\<rparr>"
  have seen: "19 / 2 - last_seen loiterer < 5" "19 / 2 - last_seen visitor < (5::real)"
    by (simp_all add: loiterer_def visitor_def add_position_def)
  have loit: "check_loitering ?sys loiterer (19 / 2) = (Inl TypeError, loiterer)"
    by (simp add: check_loitering_def loiterer_avg_movement)
       (simp add: loiterer_def example_system_def)
  have a1: "analyze_behavior fm ?sys loiterer (19 / 2) = (Some TypeError, loiterer)"
    by (simp add: analyze_behavior_def loit)
  have a2: "fst (analyze_behavior fm ?sys visitor (19 / 2)) = None \<and>
            map event_type
              (risk_events (snd (analyze_behavior fm ?sys visitor (19 / 2))))
              = [''intrusion'']"
    by (simp add: analyze_behavior_def check_loitering_def check_movement_patterns_def
          check_intrusion_def check_weapons_def zone_eval
          get_movement_pattern_def option_list_def visitor_def add_position_def
          deque_append_def new_PersonTracker_def example_system_def square_zone_def)
  have loop: "process_frame_analysis fm ?sys [] 10 (19 / 2) [(1, loiterer), (2, visitor)]
                = (Some TypeError, [(1, loiterer), (2, visitor)])"
    using seen(1) by (simp add: a1)
  have ev: "risk_events visitor = []"
    by (simp add: visitor_def add_position_def new_PersonTracker_def)
  let ?bad = "intruder\<lparr>positions := [(0, 0), (0, 0), (0, 0), (0, 0), (0, 0)]\<rparr>"
  have bad: "calculate_risk_score fm ?bad 1 = Inl IndexError"
    by (simp add: calculate_risk_score_def get_movement_pattern_def get_speed_def intruder_def
          new_PersonTracker_def upt_rec split: prod.split)
  have "map inc_track_id
     (fst (snd (process_alerts fm
        (example_system\<lparr>person_trackers := [(3, ?bad), (7, intruder)]\<rparr>) 1))) = [7]"
    by (simp add: process_alerts_def process_alerts_person_exception[OF bad])
       (simp add: dispatch_eval)
  with seen a1 a2 loop ev bad show ?thesis by simp
qed

section \<open>Loitering\<close>

text \<open>
  C3, as stated, fails: when the stationary window has lasted exactly the loitering
  threshold (10 seconds here) no event is emitted, because the code asks for more than
  the threshold.
\<close>

theorem check_loitering_at_threshold_counterexample:
  "length (positions loiterer) = 10 \<and>
   avg_movement (positions loiterer) < 10 \<and>
   stationary_start loiterer = Some 0 \<and>
   loitering_threshold example_system = Some 10 \<and>
   (10::real) - 0 = 10 \<and>
   risk_events loiterer = [] \<and>
   check_loitering example_system loiterer 10 = (Inr None, loiterer)"
  by (simp add: check_loitering_def loiterer_avg_movement)
     (simp add: loiterer_def example_system_def new_PersonTracker_def)

text \<open>
  C3, amended.  Let a track have at least 10 position samples with
  \<^verbatim>\<open>avg_movement\<close> below 10 px (the summed step lengths of the last ten samples divided by
  ten; a mean step below 10 px implies it), an open stationary window that has lasted
  more than \<^verbatim>\<open>loitering_threshold\<close> seconds, and no suspicious_loitering event of the last
  60 seconds.  Then \<^verbatim>\<open>check_loitering\<close> returns exactly one event: suspicious_loitering, with
  the elapsed stationary time as duration, score seed 8 and confidence 0.8, stamped with the
  current time; \<^verbatim>\<open>analyze_behavior\<close> stores it on the track (when the two histories are
  paired); and on any track that holds this event a check less than 60 seconds after it
  returns no event.
\<close>

theorem check_loitering_emits_once:
  assumes n: "10 \<le> length (positions p)"
    and still: "avg_movement (positions p) < 10"
    and start: "stationary_start p = Some start"
    and thr: "loitering_threshold self = Some thr"
    and long: "thr < now - start"
    and fresh: "filter (\<lambda>e. event_type e = ''suspicious_loitering'' \<and> now - timestamp e < 60)
                  (risk_events p) = []"
  shows "\<exists>e. check_loitering self p now = (Inr (Some e), p) \<and>
             event_type e = ''suspicious_loitering'' \<and> duration e = now - start \<and>
             risk_score e = 8 \<and> confidence e = 0.8 \<and> timestamp e = now \<and>
             (length (positions p) \<le> length (timestamps p) \<longrightarrow>
                fst (analyze_behavior fm self p now) = None \<and>
                e \<in> set (risk_events (snd (analyze_behavior fm self p now)))) \<and>
             (\<forall>p' now'. e \<in> set (risk_events p') \<and> now' - now < 60 \<longrightarrow>
                fst (check_loitering self p' now') = Inr None)"
proof -
  let ?e = "\<lparr> event_type = ''suspicious_loitering'', risk_score = 8, confidence = 0.8,
             timestamp = now, duration = now - start, location = last (positions p),
             description = LoiteringFor (now - start) \<rparr>"
  have c: "check_loitering self p now = (Inr (Some ?e), p)"
    using n still start thr long fresh by (simp add: check_loitering_def)
  have stored: "fst (analyze_behavior fm self p now) = None \<and>
                ?e \<in> set (risk_events (snd (analyze_behavior fm self p now)))"
    if "length (positions p) \<le> length (timestamps p)"
  proof -
    from get_movement_pattern_defined[OF that] obtain pat
      where "get_movement_pattern fm p = Inr pat" ..
    then obtain m where "check_movement_patterns fm self p now = Inr m"
      by (simp add: check_movement_patterns_def)
    then show ?thesis
      by (simp add: analyze_behavior_def c Let_def option_list_def)
  qed
  have again: "fst (check_loitering self p' now') = Inr None"
    if "?e \<in> set (risk_events p')" and "now' - now < 60" for p' now'
  proof -
    from that have "?e \<in> set (filter (\<lambda>e. event_type e = ''suspicious_loitering'' \<and>
                                         now' - timestamp e < 60) (risk_events p'))"
      by simp
    then have "filter (\<lambda>e. event_type e = ''suspicious_loitering'' \<and>
                            now' - timestamp e < 60) (risk_events p') \<noteq> []"
      by (metis empty_iff empty_set)
    then show ?thesis
      using thr by (simp add: check_loitering_def split: option.split)
  qed
  from c stored again show ?thesis by auto
qed

theorem check_loitering_emits_once_witness:
  "10 \<le> length (positions loiterer) \<and>
   avg_movement (positions loiterer) < 10 \<and>
   stationary_start loiterer = Some 0 \<and>
   loitering_threshold example_system = Some 10 \<and>
   (10::real) < 11 - 0 \<and>
   (\<exists>e. check_loitering example_system loiterer 11 = (Inr (Some e), loiterer) \<and>
        event_type e = ''suspicious_loitering'' \<and> duration e = 11 \<and>
        risk_score e = 8 \<and> confidence e = 0.8 \<and>
        e \<in> set (risk_events (snd (analyze_behavior real_math example_system loiterer 11))) \<and>
        fst (check_loitering example_system
               (snd (analyze_behavior real_math example_system loiterer 11)) 12) = Inr None)"
proof -
  have n: "10 \<le> length (positions loiterer)" by (simp add: loiterer_def)
  have still: "avg_movement (positions loiterer) < 10" by (simp add: loiterer_avg_movement)
  have start: "stationary_start loiterer = Some 0" by (simp add: loiterer_def)
  have thr: "loitering_threshold example_system = Some 10" by (simp add: example_system_def)
  have long: "(10::real) < 11 - 0" by simp
  have fresh: "filter (\<lambda>e. event_type e = ''suspicious_loitering'' \<and> 11 - timestamp e < 60)
                 (risk_events loiterer) = []"
    by (simp add: loiterer_def new_PersonTracker_def)
  have paired: "length (positions loiterer) \<le> length (timestamps loiterer)"
    by (simp add: loiterer_def)
  from check_loitering_emits_once[OF n still start thr long fresh] paired
  obtain e where e: "check_loitering example_system loiterer 11 = (Inr (Some e), loiterer)"
    "event_type e = ''suspicious_loitering''" "duration e = 11 - 0"
    "risk_score e = 8" "confidence e = 0.8"
    "e \<in> set (risk_events (snd (analyze_behavior real_math example_system loiterer 11)))"
    and again: "\<forall>p' now'. e \<in> set (risk_events p') \<and> now' - 11 < 60 \<longrightarrow>
                  fst (check_loitering example_system p' now') = Inr None"
    by blast
  from again e(6) have "fst (check_loitering example_system
               (snd (analyze_behavior real_math example_system loiterer 11)) 12) = Inr None"
    by simp
  with n still start thr long e show ?thesis by auto
qed

section \<open>Movement pattern classification\<close>















end
